theory Spec2Isabelle
  imports Complex_Main "HOL-Library.Word"
begin

section \<open>The linear-decay correlation model of the CSM library\<close>

text \<open>
  A shallow embedding of \<^verbatim>\<open>src/LinearDecayCorrelationModel.cpp\<close>.

  \<^item> \<^verbatim>\<open>size_t\<close> indices and counts are natural numbers; the sizes of the two vectors
    of the class are the lengths of two lists.
  \<^item> \<^verbatim>\<open>double\<close> is read in two ways. The values stored in a curve are finite
    numbers, and the first reading computes with them as real numbers: the four
    operations are exact. The second reading of \<^verbatim>\<open>getCorrelationCoefficient\<close> computes
    in binary64 arithmetic, with the two infinities and NaN: it is the one to use where a
    result can leave the finite range.
  \<^item> A C++ exception is the left summand of a result; a member function that can
    change the object returns its result together with the object as the call leaves it,
    also when the call throws.
  \<^item> \<^verbatim>\<open>operator[]\<close> of \<^verbatim>\<open>std::vector\<close> beyond the end and a
    floating-point division whose divisor is zero are results of their own, so that a
    theorem can say that they do not happen.
\<close>

subsection \<open>Failures\<close>

text \<open>
  The two kinds of \<^verbatim>\<open>csm::Error\<close> that this class throws (\<^verbatim>\<open>Error.h\<close> declares the
  enumeration; only these two of its values are used here).
\<close>

datatype ErrorType = INDEX_OUT_OF_RANGE | BOUNDS

datatype failure =
    Error ErrorType      \<comment> \<open>\<^verbatim>\<open>throw Error(kind, message, function)\<close>\<close>
  | OutOfRangeRead       \<comment> \<open>\<^verbatim>\<open>v[i]\<close> with \<^verbatim>\<open>i >= v.size()\<close>: undefined in C++\<close>
  | DivisionByZero       \<comment> \<open>\<^verbatim>\<open>a / b\<close> with \<^verbatim>\<open>b == 0.0\<close>\<close>

subsection \<open>Data\<close>

text \<open>
  \<^verbatim>\<open>LinearDecayCorrelationModel::Parameters\<close>: the two vectors of a decay curve. Its
  constructor from two vectors stores them in this order; its default constructor leaves
  both empty.
\<close>

record Parameters =
  theInitialCorrsPerSegment :: "real list"
  theTimesPerSegment :: "real list"

record LinearDecayCorrelationModel =
  theGroupMapping :: "int list"
  theCorrParams :: "Parameters list"
  theFormat :: string

definition Parameters_default :: Parameters where
  "Parameters_default = \<lparr>theInitialCorrsPerSegment = [], theTimesPerSegment = []\<rparr>"

text \<open>
  The constructor. The member initialisers are \<^verbatim>\<open>theGroupMapping(numSMParams, -1)\<close>
  and \<^verbatim>\<open>theCorrParams(numSMParams)\<close>: the second argument \<open>numCPGroups\<close> is not
  used.
\<close>

definition LinearDecayCorrelationModel_new :: "nat \<Rightarrow> nat \<Rightarrow> LinearDecayCorrelationModel" where
  "LinearDecayCorrelationModel_new numSMParams numCPGroups =
     \<lparr>theGroupMapping = replicate numSMParams (- 1),
      theCorrParams = replicate numSMParams Parameters_default,
      theFormat = ''LinearDecayCorrelation''\<rparr>"

subsection \<open>Counts and index checks\<close>

definition getNumSensorModelParameters :: "LinearDecayCorrelationModel \<Rightarrow> nat" where
  "getNumSensorModelParameters m = length (theGroupMapping m)"

definition getNumCorrelationParameterGroups :: "LinearDecayCorrelationModel \<Rightarrow> nat" where
  "getNumCorrelationParameterGroups m = length (theCorrParams m)"

definition checkSensorModelParameterIndex ::
    "LinearDecayCorrelationModel \<Rightarrow> nat \<Rightarrow> failure + unit" where
  "checkSensorModelParameterIndex m smParamIndex =
     (if smParamIndex \<ge> length (theGroupMapping m) then Inl (Error INDEX_OUT_OF_RANGE)
      else Inr ())"

definition checkParameterGroupIndex ::
    "LinearDecayCorrelationModel \<Rightarrow> nat \<Rightarrow> failure + unit" where
  "checkParameterGroupIndex m groupIndex =
     (if groupIndex \<ge> length (theCorrParams m) then Inl (Error INDEX_OUT_OF_RANGE)
      else Inr ())"

subsection \<open>The group mapping\<close>

definition getCorrelationParameterGroup ::
    "LinearDecayCorrelationModel \<Rightarrow> nat \<Rightarrow> failure + int" where
  "getCorrelationParameterGroup m smParamIndex =
     (case checkSensorModelParameterIndex m smParamIndex of
        Inl e \<Rightarrow> Inl e
      | Inr _ \<Rightarrow> Inr (theGroupMapping m ! smParamIndex))"

text \<open>
  The assignment \<^verbatim>\<open>theGroupMapping[smParamIndex] = cpGroupIndex\<close> converts a
  \<^verbatim>\<open>size_t\<close> to the \<^verbatim>\<open>int\<close> element type: the low 32 bits, read as a signed number.
\<close>

definition setCorrelationParameterGroup ::
    "nat \<Rightarrow> nat \<Rightarrow> LinearDecayCorrelationModel \<Rightarrow> (failure + unit) \<times> LinearDecayCorrelationModel" where
  "setCorrelationParameterGroup smParamIndex cpGroupIndex m =
     (case checkSensorModelParameterIndex m smParamIndex of
        Inl e \<Rightarrow> (Inl e, m)
      | Inr _ \<Rightarrow>
         (case checkParameterGroupIndex m cpGroupIndex of
            Inl e \<Rightarrow> (Inl e, m)
          | Inr _ \<Rightarrow>
             (Inr (),
              m\<lparr>theGroupMapping :=
                  (theGroupMapping m)[smParamIndex := sint (word_of_nat cpGroupIndex :: 32 word)]\<rparr>)))"

subsection \<open>The group parameters store\<close>

text \<open>
  The validation loop of \<^verbatim>\<open>setCorrelationGroupParameters\<close>,
  \<^verbatim>\<open>for (size_t i = 0; i < size; ++i)\<close>, from the index \<open>i\<close> on. It runs after the
  check that both vectors have \<open>sz\<close> elements, so every read is in range.
\<close>

function validate_from :: "Parameters \<Rightarrow> nat \<Rightarrow> nat \<Rightarrow> failure + unit" where
  "validate_from params sz i =
     (if i < sz then
        (let corr = theInitialCorrsPerSegment params ! i;
             time = theTimesPerSegment params ! i
         in if corr < 0 \<or> corr > 1 then Inl (Error BOUNDS)
            else if i > 0 then
              (let prevCorr = theInitialCorrsPerSegment params ! (i - 1);
                   prevTime = theTimesPerSegment params ! (i - 1)
               in if corr > prevCorr then Inl (Error BOUNDS)
                  else if time < prevTime then Inl (Error BOUNDS)
                  else validate_from params sz (Suc i))
            else validate_from params sz (Suc i))
      else Inr ())"
  by pat_completeness auto
termination
  by (relation "measure (\<lambda>(params, sz, i). sz - i)") auto

declare validate_from.simps [simp del]

definition setCorrelationGroupParameters ::
    "nat \<Rightarrow> Parameters \<Rightarrow> LinearDecayCorrelationModel \<Rightarrow>
     (failure + unit) \<times> LinearDecayCorrelationModel" where
  "setCorrelationGroupParameters cpGroupIndex params m =
     (case checkParameterGroupIndex m cpGroupIndex of
        Inl e \<Rightarrow> (Inl e, m)
      | Inr _ \<Rightarrow>
         (let sz = length (theInitialCorrsPerSegment params)
          in if sz \<noteq> length (theTimesPerSegment params) then (Inl (Error BOUNDS), m)
             else
               (case (if sz > 1 then validate_from params sz 0 else Inr ()) of
                  Inl e \<Rightarrow> (Inl e, m)
                | Inr _ \<Rightarrow>
                   (Inr (), m\<lparr>theCorrParams := (theCorrParams m)[cpGroupIndex := params]\<rparr>))))"

text \<open>The overload that takes the two vectors builds the curve and calls the other one.\<close>

definition setCorrelationGroupParameters_vectors ::
    "nat \<Rightarrow> real list \<Rightarrow> real list \<Rightarrow> LinearDecayCorrelationModel \<Rightarrow>
     (failure + unit) \<times> LinearDecayCorrelationModel" where
  "setCorrelationGroupParameters_vectors cpGroupIndex initialCorrsPerSegment timesPerSegment m =
     setCorrelationGroupParameters cpGroupIndex
       \<lparr>theInitialCorrsPerSegment = initialCorrsPerSegment,
        theTimesPerSegment = timesPerSegment\<rparr> m"

definition getCorrelationGroupParameters ::
    "LinearDecayCorrelationModel \<Rightarrow> nat \<Rightarrow> failure + Parameters" where
  "getCorrelationGroupParameters m cpGroupIndex =
     (case checkParameterGroupIndex m cpGroupIndex of
        Inl e \<Rightarrow> Inl e
      | Inr _ \<Rightarrow> Inr (theCorrParams m ! cpGroupIndex))"

subsection \<open>The coefficient in exact arithmetic\<close>

definition read_at :: "real list \<Rightarrow> nat \<Rightarrow> failure + real" where
  "read_at v i = (if i < length v then Inr (v ! i) else Inl OutOfRangeRead)"

definition divide_checked :: "real \<Rightarrow> real \<Rightarrow> failure + real" where
  "divide_checked a b = (if b = 0 then Inl DivisionByZero else Inr (a / b))"

text \<open>
  The loop \<^verbatim>\<open>for (size_t s = 1; s < size; ++s)\<close> of
  \<^verbatim>\<open>getCorrelationCoefficient\<close>, from the index \<open>s\<close> on, with the three variables
  it updates. \<open>sz\<close> is the size of the correlations; the times are read at the same
  index. The result is the value of \<open>correlation\<close> when the loop is left.
\<close>

function scan_from ::
    "Parameters \<Rightarrow> nat \<Rightarrow> real \<Rightarrow> nat \<Rightarrow> real \<Rightarrow> real \<Rightarrow> real \<Rightarrow> failure + real" where
  "scan_from cp sz adt s prevCorr prevTime correlation =
     (if s < sz then
        (case read_at (theInitialCorrsPerSegment cp) s of
           Inl e \<Rightarrow> Inl e
         | Inr corr \<Rightarrow>
            (case read_at (theTimesPerSegment cp) s of
               Inl e \<Rightarrow> Inl e
             | Inr time \<Rightarrow>
                if adt \<le> time then
                  (if time - prevTime \<noteq> 0 then
                     (case divide_checked (adt - prevTime) (time - prevTime) of
                        Inl e \<Rightarrow> Inl e
                      | Inr q \<Rightarrow> Inr (prevCorr + q * (corr - prevCorr)))
                   else Inr correlation)
                else scan_from cp sz adt (Suc s) corr time corr))
      else Inr correlation)"
  by pat_completeness auto
termination
  by (relation "measure (\<lambda>(cp, sz, adt, s, prevCorr, prevTime, correlation). sz - s)") auto

declare scan_from.simps [simp del]

definition clamp_coefficient :: "real \<Rightarrow> real" where
  "clamp_coefficient correlation =
     (if correlation < 0 then 0 else if correlation > 1 then 1 else correlation)"

definition getCorrelationCoefficient ::
    "LinearDecayCorrelationModel \<Rightarrow> nat \<Rightarrow> real \<Rightarrow> failure + real" where
  "getCorrelationCoefficient m cpGroupIndex deltaTime =
     (case checkParameterGroupIndex m cpGroupIndex of
        Inl e \<Rightarrow> Inl e
      | Inr _ \<Rightarrow>
         (let cp = theCorrParams m ! cpGroupIndex;
              sz = length (theInitialCorrsPerSegment cp);
              adt = \<bar>deltaTime\<bar>
          in case read_at (theInitialCorrsPerSegment cp) 0 of
               Inl e \<Rightarrow> Inl e
             | Inr prevCorr \<Rightarrow>
                (case read_at (theTimesPerSegment cp) 0 of
                   Inl e \<Rightarrow> Inl e
                 | Inr prevTime \<Rightarrow>
                    (case scan_from cp sz adt 1 prevCorr prevTime prevCorr of
                       Inl e \<Rightarrow> Inl e
                     | Inr correlation \<Rightarrow> Inr (clamp_coefficient correlation)))))"

subsection \<open>The coefficient in binary64 arithmetic\<close>

text \<open>
  A binary64 value: a finite number, one of the two infinities, or NaN. The two zeros
  are one value here; they differ in the sign of a quotient by zero only, and the only
  division of this class is made after a test that the divisor is not zero.
\<close>

datatype double = Finite real | PlusInfinity | MinusInfinity | NaN

text \<open>
  The result of an operation on finite operands is the exact result, rounded. \<open>rnd\<close>
  is the rounding of a number inside the finite range to a binary64 value; every
  statement below holds whatever this function is. A number outside the range becomes
  an infinity: with rounding to nearest, ties to even, that is from
  \<open>2 ^ 1024 - 2 ^ 970\<close> on, half a unit in the last place above the largest finite
  value \<open>2 ^ 1024 - 2 ^ 971\<close>. Each operation of an expression is rounded by itself,
  in the order the expression is written.
\<close>

definition round_to_double :: "(real \<Rightarrow> real) \<Rightarrow> real \<Rightarrow> double" where
  "round_to_double rnd x =
     (if x \<ge> 2 ^ 1024 - 2 ^ 970 then PlusInfinity
      else if x \<le> - (2 ^ 1024 - 2 ^ 970) then MinusInfinity
      else Finite (rnd x))"

definition infinity_of_sign :: "real \<Rightarrow> double" where
  "infinity_of_sign x = (if x = 0 then NaN else if x > 0 then PlusInfinity else MinusInfinity)"

fun double_neg :: "double \<Rightarrow> double" where
  "double_neg (Finite x) = Finite (- x)"
| "double_neg PlusInfinity = MinusInfinity"
| "double_neg MinusInfinity = PlusInfinity"
| "double_neg NaN = NaN"

fun double_add :: "(real \<Rightarrow> real) \<Rightarrow> double \<Rightarrow> double \<Rightarrow> double" where
  "double_add rnd NaN b = NaN"
| "double_add rnd a NaN = NaN"
| "double_add rnd (Finite x) (Finite y) = round_to_double rnd (x + y)"
| "double_add rnd (Finite x) b = b"
| "double_add rnd a (Finite y) = a"
| "double_add rnd PlusInfinity PlusInfinity = PlusInfinity"
| "double_add rnd MinusInfinity MinusInfinity = MinusInfinity"
| "double_add rnd PlusInfinity MinusInfinity = NaN"
| "double_add rnd MinusInfinity PlusInfinity = NaN"

definition double_sub :: "(real \<Rightarrow> real) \<Rightarrow> double \<Rightarrow> double \<Rightarrow> double" where
  "double_sub rnd a b = double_add rnd a (double_neg b)"

fun double_mul :: "(real \<Rightarrow> real) \<Rightarrow> double \<Rightarrow> double \<Rightarrow> double" where
  "double_mul rnd NaN b = NaN"
| "double_mul rnd a NaN = NaN"
| "double_mul rnd (Finite x) (Finite y) = round_to_double rnd (x * y)"
| "double_mul rnd (Finite x) PlusInfinity = infinity_of_sign x"
| "double_mul rnd (Finite x) MinusInfinity = infinity_of_sign (- x)"
| "double_mul rnd PlusInfinity (Finite y) = infinity_of_sign y"
| "double_mul rnd MinusInfinity (Finite y) = infinity_of_sign (- y)"
| "double_mul rnd PlusInfinity PlusInfinity = PlusInfinity"
| "double_mul rnd MinusInfinity MinusInfinity = PlusInfinity"
| "double_mul rnd PlusInfinity MinusInfinity = MinusInfinity"
| "double_mul rnd MinusInfinity PlusInfinity = MinusInfinity"

fun double_div :: "(real \<Rightarrow> real) \<Rightarrow> double \<Rightarrow> double \<Rightarrow> double" where
  "double_div rnd NaN b = NaN"
| "double_div rnd a NaN = NaN"
| "double_div rnd (Finite x) (Finite y) = round_to_double rnd (x / y)"
| "double_div rnd (Finite x) b = Finite 0"
| "double_div rnd PlusInfinity (Finite y) = (if y < 0 then MinusInfinity else PlusInfinity)"
| "double_div rnd MinusInfinity (Finite y) = (if y < 0 then PlusInfinity else MinusInfinity)"
| "double_div rnd a b = NaN"

text \<open>
  The comparisons: every comparison with NaN is false, except \<^verbatim>\<open>!=\<close>, which is the
  negation of \<^verbatim>\<open>==\<close>.
\<close>

fun double_less :: "double \<Rightarrow> double \<Rightarrow> bool" where
  "double_less NaN b = False"
| "double_less a NaN = False"
| "double_less (Finite x) (Finite y) = (x < y)"
| "double_less a PlusInfinity = (a \<noteq> PlusInfinity)"
| "double_less MinusInfinity b = (b \<noteq> MinusInfinity)"
| "double_less a b = False"

definition double_eq :: "double \<Rightarrow> double \<Rightarrow> bool" where
  "double_eq a b = (a \<noteq> NaN \<and> b \<noteq> NaN \<and> a = b)"

definition double_le :: "double \<Rightarrow> double \<Rightarrow> bool" where
  "double_le a b = (double_less a b \<or> double_eq a b)"

fun fabs :: "double \<Rightarrow> double" where
  "fabs (Finite x) = Finite \<bar>x\<bar>"
| "fabs PlusInfinity = PlusInfinity"
| "fabs MinusInfinity = PlusInfinity"
| "fabs NaN = NaN"

text \<open>
  \<^verbatim>\<open>getCorrelationCoefficient\<close> again, line by line as above, on the same stored
  curves, with the operations and comparisons of binary64. \<open>deltaTime\<close> is any
  binary64 value.
\<close>

definition read_double_at :: "real list \<Rightarrow> nat \<Rightarrow> failure + double" where
  "read_double_at v i = (if i < length v then Inr (Finite (v ! i)) else Inl OutOfRangeRead)"

definition double_divide_checked ::
    "(real \<Rightarrow> real) \<Rightarrow> double \<Rightarrow> double \<Rightarrow> failure + double" where
  "double_divide_checked rnd a b =
     (if b = Finite 0 then Inl DivisionByZero else Inr (double_div rnd a b))"

function scan_from_binary64 ::
    "(real \<Rightarrow> real) \<Rightarrow> Parameters \<Rightarrow> nat \<Rightarrow> double \<Rightarrow> nat \<Rightarrow> double \<Rightarrow> double \<Rightarrow> double \<Rightarrow>
     failure + double" where
  "scan_from_binary64 rnd cp sz adt s prevCorr prevTime correlation =
     (if s < sz then
        (case read_double_at (theInitialCorrsPerSegment cp) s of
           Inl e \<Rightarrow> Inl e
         | Inr corr \<Rightarrow>
            (case read_double_at (theTimesPerSegment cp) s of
               Inl e \<Rightarrow> Inl e
             | Inr time \<Rightarrow>
                if double_le adt time then
                  (if \<not> double_eq (double_sub rnd time prevTime) (Finite 0) then
                     (case double_divide_checked rnd (double_sub rnd adt prevTime)
                             (double_sub rnd time prevTime) of
                        Inl e \<Rightarrow> Inl e
                      | Inr q \<Rightarrow>
                         Inr (double_add rnd prevCorr
                                (double_mul rnd q (double_sub rnd corr prevCorr))))
                   else Inr correlation)
                else scan_from_binary64 rnd cp sz adt (Suc s) corr time corr))
      else Inr correlation)"
  by pat_completeness auto
termination
  by (relation "measure (\<lambda>(rnd, cp, sz, adt, s, prevCorr, prevTime, correlation). sz - s)") auto

declare scan_from_binary64.simps [simp del]

definition clamp_coefficient_binary64 :: "double \<Rightarrow> double" where
  "clamp_coefficient_binary64 correlation =
     (if double_less correlation (Finite 0) then Finite 0
      else if double_less (Finite 1) correlation then Finite 1
      else correlation)"

definition getCorrelationCoefficient_binary64 ::
    "(real \<Rightarrow> real) \<Rightarrow> LinearDecayCorrelationModel \<Rightarrow> nat \<Rightarrow> double \<Rightarrow> failure + double" where
  "getCorrelationCoefficient_binary64 rnd m cpGroupIndex deltaTime =
     (case checkParameterGroupIndex m cpGroupIndex of
        Inl e \<Rightarrow> Inl e
      | Inr _ \<Rightarrow>
         (let cp = theCorrParams m ! cpGroupIndex;
              sz = length (theInitialCorrsPerSegment cp);
              adt = fabs deltaTime
          in case read_double_at (theInitialCorrsPerSegment cp) 0 of
               Inl e \<Rightarrow> Inl e
             | Inr prevCorr \<Rightarrow>
                (case read_double_at (theTimesPerSegment cp) 0 of
                   Inl e \<Rightarrow> Inl e
                 | Inr prevTime \<Rightarrow>
                    (case scan_from_binary64 rnd cp sz adt 1 prevCorr prevTime prevCorr of
                       Inl e \<Rightarrow> Inl e
                     | Inr correlation \<Rightarrow> Inr (clamp_coefficient_binary64 correlation)))))"

subsection \<open>Reachable models\<close>

text \<open>
  The models a program can hold: the constructor's, and the object after any call of one
  of the two member functions that are not \<^verbatim>\<open>const\<close>, whether the call returned or
  threw.
\<close>

inductive reachable :: "LinearDecayCorrelationModel \<Rightarrow> bool" where
  constructed: "reachable (LinearDecayCorrelationModel_new numSMParams numCPGroups)"
| after_setGroup:
    "reachable m \<Longrightarrow> reachable (snd (setCorrelationParameterGroup smParamIndex cpGroupIndex m))"
| after_setCurve:
    "reachable m \<Longrightarrow> reachable (snd (setCorrelationGroupParameters cpGroupIndex params m))"

subsection \<open>What the validation loop checks\<close>

text \<open>
  The tests of one iteration of the validation loop, at the index \<open>j\<close>: the
  correlation is in the unit interval and, after the first breakpoint, the correlation
  does not rise and the time does not fall.
\<close>

definition breakpoint_ok :: "Parameters \<Rightarrow> nat \<Rightarrow> bool" where
  "breakpoint_ok p j \<longleftrightarrow>
     0 \<le> theInitialCorrsPerSegment p ! j \<and> theInitialCorrsPerSegment p ! j \<le> 1 \<and>
     (0 < j \<longrightarrow> theInitialCorrsPerSegment p ! j \<le> theInitialCorrsPerSegment p ! (j - 1) \<and>
                theTimesPerSegment p ! (j - 1) \<le> theTimesPerSegment p ! j)"

text \<open>
  What holds of a curve that \<^verbatim>\<open>setCorrelationGroupParameters\<close> has accepted, and of the
  empty curve of a new model: both vectors have the same size, and every breakpoint
  passes the tests when there are two breakpoints or more.
\<close>

definition stored_ok :: "Parameters \<Rightarrow> bool" where
  "stored_ok p \<longleftrightarrow>
     length (theInitialCorrsPerSegment p) = length (theTimesPerSegment p) \<and>
     (1 < length (theInitialCorrsPerSegment p) \<longrightarrow>
        (\<forall>j < length (theInitialCorrsPerSegment p). breakpoint_ok p j))"

subsection \<open>Example curves and models\<close>

text \<open>
  The curve of the documented examples, a curve that starts at the time 10, a curve with
  a segment of width zero, a single breakpoint above 1, and two curves that the
  validation refuses.
\<close>

definition spec_curve :: Parameters where
  "spec_curve = \<lparr>theInitialCorrsPerSegment = [1, 1 / 2, 0], theTimesPerSegment = [0, 10, 20]\<rparr>"

definition late_curve :: Parameters where
  "late_curve = \<lparr>theInitialCorrsPerSegment = [1 / 2, 0], theTimesPerSegment = [10, 20]\<rparr>"

definition flat_curve :: Parameters where
  "flat_curve = \<lparr>theInitialCorrsPerSegment = [4 / 5, 4 / 5], theTimesPerSegment = [5, 5]\<rparr>"

definition single_curve :: Parameters where
  "single_curve = \<lparr>theInitialCorrsPerSegment = [3 / 2], theTimesPerSegment = [0]\<rparr>"

definition rising_curve :: Parameters where
  "rising_curve = \<lparr>theInitialCorrsPerSegment = [1 / 2, 1], theTimesPerSegment = [0, 10]\<rparr>"

definition large_curve :: Parameters where
  "large_curve = \<lparr>theInitialCorrsPerSegment = [3 / 2, 1], theTimesPerSegment = [0, 10]\<rparr>"

text \<open>A curve whose two times are finite and \<open>2 ^ 1024\<close> apart.\<close>

definition wide_curve :: Parameters where
  "wide_curve = \<lparr>theInitialCorrsPerSegment = [1, 0],
                 theTimesPerSegment = [- (2 ^ 1023), 2 ^ 1023]\<rparr>"

definition fresh_model :: LinearDecayCorrelationModel where
  "fresh_model = LinearDecayCorrelationModel_new 2 2"

definition one_group :: "Parameters \<Rightarrow> LinearDecayCorrelationModel" where
  "one_group p = snd (setCorrelationGroupParameters 0 p fresh_model)"

section \<open>Properties\<close>

subsection \<open>The two member functions that change the model\<close>

lemma set_results:
  "snd (setCorrelationParameterGroup i g m) = m \<or>
   snd (setCorrelationParameterGroup i g m) =
     m\<lparr>theGroupMapping := (theGroupMapping m)[i := sint (word_of_nat g :: 32 word)]\<rparr>"
  by (simp add: setCorrelationParameterGroup_def split: sum.splits)

lemma setCurve_results:
  "snd (setCorrelationGroupParameters g p m) = m \<or>
   snd (setCorrelationGroupParameters g p m) = m\<lparr>theCorrParams := (theCorrParams m)[g := p]\<rparr>"
  by (simp add: setCorrelationGroupParameters_def Let_def split: sum.splits)

lemma reachable_lengths:
  "reachable m \<Longrightarrow> length (theGroupMapping m) = length (theCorrParams m)"
proof (induction rule: reachable.induct)
  case (constructed numSMParams numCPGroups)
  show ?case by (simp add: LinearDecayCorrelationModel_new_def)
next
  case (after_setGroup m smParamIndex cpGroupIndex)
  then show ?case
    using set_results [of smParamIndex cpGroupIndex m] by auto
next
  case (after_setCurve m cpGroupIndex params)
  then show ?case
    using setCurve_results [of cpGroupIndex params m] by auto
qed

subsection \<open>The validation loop\<close>

lemma validate_from_done: "\<not> i < sz \<Longrightarrow> validate_from p sz i = Inr ()"
  by (subst validate_from.simps) simp

lemma validate_from_step:
  "i < sz \<Longrightarrow> validate_from p sz i =
     (if breakpoint_ok p i then validate_from p sz (Suc i) else Inl (Error BOUNDS))"
  by (subst validate_from.simps) (auto simp: Let_def breakpoint_ok_def)

lemma validate_from_ok_iff:
  "validate_from p sz i = Inr () \<longleftrightarrow> (\<forall>j. i \<le> j \<and> j < sz \<longrightarrow> breakpoint_ok p j)"
proof (induction "sz - i" arbitrary: i)
  case 0
  then show ?case by (auto simp: validate_from_done)
next
  case (Suc n)
  then have lt: "i < sz" and n: "n = sz - Suc i" by simp_all
  have "(\<forall>j. i \<le> j \<and> j < sz \<longrightarrow> breakpoint_ok p j) \<longleftrightarrow>
        breakpoint_ok p i \<and> (\<forall>j. Suc i \<le> j \<and> j < sz \<longrightarrow> breakpoint_ok p j)"
    using lt by (metis Suc_leI le_neq_implies_less Suc_leD order_refl)
  then show ?case
    using Suc.hyps(1) [OF n] by (simp add: validate_from_step [OF lt])
qed

lemma validate_from_failure:
  "validate_from p sz i = Inl e \<Longrightarrow> e = Error BOUNDS"
proof (induction "sz - i" arbitrary: i)
  case 0
  then show ?case by (simp add: validate_from_done)
next
  case (Suc n)
  then have lt: "i < sz" and n: "n = sz - Suc i" by simp_all
  show ?case
    using Suc.hyps(1) [OF n] Suc.prems by (simp add: validate_from_step [OF lt] split: if_splits)
qed

lemma setCurve_cases:
  "setCorrelationGroupParameters g p m = (Inl (Error INDEX_OUT_OF_RANGE), m) \<and>
     \<not> g < length (theCorrParams m) \<or>
   setCorrelationGroupParameters g p m = (Inl (Error BOUNDS), m) \<and>
     g < length (theCorrParams m) \<and> \<not> stored_ok p \<or>
   setCorrelationGroupParameters g p m =
     (Inr (), m\<lparr>theCorrParams := (theCorrParams m)[g := p]\<rparr>) \<and>
     g < length (theCorrParams m) \<and> stored_ok p"
proof (cases "g < length (theCorrParams m)")
  case False
  then show ?thesis
    by (simp add: setCorrelationGroupParameters_def checkParameterGroupIndex_def)
next
  case g: True
  show ?thesis
  proof (cases "length (theInitialCorrsPerSegment p) = length (theTimesPerSegment p)")
    case False
    then show ?thesis using g
      by (simp add: setCorrelationGroupParameters_def checkParameterGroupIndex_def stored_ok_def)
  next
    case len: True
    show ?thesis
    proof (cases "1 < length (theInitialCorrsPerSegment p)")
      case False
      then show ?thesis using g len
        by (simp add: setCorrelationGroupParameters_def checkParameterGroupIndex_def stored_ok_def)
    next
      case True
      show ?thesis
      proof (cases "validate_from p (length (theInitialCorrsPerSegment p)) 0")
        case (Inl e)
        then have e: "e = Error BOUNDS" by (rule validate_from_failure)
        have "\<not> stored_ok p"
          using Inl True validate_from_ok_iff [of p "length (theInitialCorrsPerSegment p)" 0]
          by (simp add: stored_ok_def)
        then show ?thesis using g len True Inl e
          by (simp add: setCorrelationGroupParameters_def checkParameterGroupIndex_def)
      next
        case (Inr u)
        have "stored_ok p"
          using Inr True len validate_from_ok_iff [of p "length (theInitialCorrsPerSegment p)" 0]
          by (simp add: stored_ok_def)
        then show ?thesis using g len True Inr
          by (simp add: setCorrelationGroupParameters_def checkParameterGroupIndex_def)
      qed
    qed
  qed
qed

lemma reachable_stored_ok:
  "reachable m \<Longrightarrow> p \<in> set (theCorrParams m) \<Longrightarrow> stored_ok p"
proof (induction arbitrary: p rule: reachable.induct)
  case (constructed numSMParams numCPGroups)
  then show ?case
    by (auto simp: LinearDecayCorrelationModel_new_def Parameters_default_def stored_ok_def)
next
  case (after_setGroup m smParamIndex cpGroupIndex)
  then show ?case
    using set_results [of smParamIndex cpGroupIndex m] by auto
next
  case (after_setCurve m cpGroupIndex params)
  have "p \<in> set (theCorrParams m) \<or> p = params \<and> stored_ok params"
    using setCurve_cases [of cpGroupIndex params m] after_setCurve.prems
      set_update_subset_insert [of "theCorrParams m" cpGroupIndex params]
    by auto
  then show ?case using after_setCurve.IH by blast
qed

subsection \<open>The scan over the breakpoints\<close>

lemma scan_from_done: "\<not> s < sz \<Longrightarrow> scan_from cp sz adt s pc pt c = Inr c"
  by (subst scan_from.simps) simp

lemma scan_from_step:
  "s < sz \<Longrightarrow> s < length (theInitialCorrsPerSegment cp) \<Longrightarrow> s < length (theTimesPerSegment cp) \<Longrightarrow>
   scan_from cp sz adt s pc pt c =
     (if adt \<le> theTimesPerSegment cp ! s then
        (if theTimesPerSegment cp ! s - pt \<noteq> 0 then
           Inr (pc + (adt - pt) / (theTimesPerSegment cp ! s - pt) *
                       (theInitialCorrsPerSegment cp ! s - pc))
         else Inr c)
      else scan_from cp sz adt (Suc s) (theInitialCorrsPerSegment cp ! s)
             (theTimesPerSegment cp ! s) (theInitialCorrsPerSegment cp ! s))"
  by (subst scan_from.simps) (simp add: read_at_def divide_checked_def)

lemma scan_from_never_divides_by_zero:
  "scan_from cp sz adt s pc pt c \<noteq> Inl DivisionByZero"
proof (induction "sz - s" arbitrary: s pc pt c)
  case 0
  then show ?case by (simp add: scan_from_done)
next
  case (Suc n)
  then have lt: "s < sz" and n: "n = sz - Suc s" by simp_all
  show ?case
    using Suc.hyps(1) [OF n] lt
    by (subst scan_from.simps) (simp add: read_at_def divide_checked_def)
qed

lemma scan_from_returns:
  "length (theInitialCorrsPerSegment cp) = sz \<Longrightarrow> length (theTimesPerSegment cp) = sz \<Longrightarrow>
   \<exists>r. scan_from cp sz adt s pc pt c = Inr r"
proof (induction "sz - s" arbitrary: s pc pt c)
  case 0
  then show ?case by (simp add: scan_from_done)
next
  case (Suc n)
  then have lt: "s < sz" and n: "n = sz - Suc s" by simp_all
  show ?case
    using Suc.hyps(1) [OF n Suc.prems] lt Suc.prems
    by (simp add: scan_from_step)
qed

lemma clamp_coefficient_id: "0 \<le> x \<Longrightarrow> x \<le> 1 \<Longrightarrow> clamp_coefficient x = x"
  by (simp add: clamp_coefficient_def)

lemma coefficient_unfold:
  assumes "g < length (theCorrParams m)"
    and "theInitialCorrsPerSegment (theCorrParams m ! g) \<noteq> []"
    and "theTimesPerSegment (theCorrParams m ! g) \<noteq> []"
  shows "getCorrelationCoefficient m g dt =
     (case scan_from (theCorrParams m ! g) (length (theInitialCorrsPerSegment (theCorrParams m ! g)))
             \<bar>dt\<bar> 1 (theInitialCorrsPerSegment (theCorrParams m ! g) ! 0)
             (theTimesPerSegment (theCorrParams m ! g) ! 0)
             (theInitialCorrsPerSegment (theCorrParams m ! g) ! 0) of
        Inl e \<Rightarrow> Inl e
      | Inr correlation \<Rightarrow> Inr (clamp_coefficient correlation))"
  using assms
  by (simp add: getCorrelationCoefficient_def checkParameterGroupIndex_def read_at_def Let_def)

lemma coefficient_stored:
  assumes "reachable m" and "g < length (theCorrParams m)"
    and "theInitialCorrsPerSegment (theCorrParams m ! g) \<noteq> []"
  shows "\<exists>r. scan_from (theCorrParams m ! g) (length (theInitialCorrsPerSegment (theCorrParams m ! g)))
             \<bar>dt\<bar> 1 (theInitialCorrsPerSegment (theCorrParams m ! g) ! 0)
             (theTimesPerSegment (theCorrParams m ! g) ! 0)
             (theInitialCorrsPerSegment (theCorrParams m ! g) ! 0) = Inr r \<and>
          getCorrelationCoefficient m g dt = Inr (clamp_coefficient r)"
proof -
  let ?cp = "theCorrParams m ! g"
  have ok: "stored_ok ?cp"
    using assms(1,2) by (auto intro: reachable_stored_ok)
  then have len: "length (theTimesPerSegment ?cp) = length (theInitialCorrsPerSegment ?cp)"
    by (simp add: stored_ok_def)
  with assms(3) have t: "theTimesPerSegment ?cp \<noteq> []" by auto
  obtain r where r: "scan_from ?cp (length (theInitialCorrsPerSegment ?cp))
             \<bar>dt\<bar> 1 (theInitialCorrsPerSegment ?cp ! 0)
             (theTimesPerSegment ?cp ! 0)
             (theInitialCorrsPerSegment ?cp ! 0) = Inr r"
    using scan_from_returns [OF refl len] by blast
  show ?thesis
    using r coefficient_unfold [OF assms(2,3) t, of dt] by simp
qed

lemma coefficient_abs: "getCorrelationCoefficient m g (- t) = getCorrelationCoefficient m g t"
  unfolding getCorrelationCoefficient_def abs_minus_cancel by (rule refl)

subsection \<open>The example models\<close>

lemma fresh_model_fields:
  "theGroupMapping fresh_model = [- 1, - 1]"
  "theCorrParams fresh_model = [Parameters_default, Parameters_default]"
  by (simp_all add: fresh_model_def LinearDecayCorrelationModel_new_def numeral_2_eq_2)

lemma one_group_reachable: "reachable (one_group p)"
  unfolding one_group_def fresh_model_def by (intro reachable.intros)

lemma one_group_count: "getNumCorrelationParameterGroups (one_group p) = 2"
  using setCurve_results [of 0 p fresh_model]
  by (auto simp: one_group_def getNumCorrelationParameterGroups_def fresh_model_fields)

lemma installs:
  "setCorrelationGroupParameters 0 spec_curve fresh_model =
     (Inr (), fresh_model\<lparr>theCorrParams := [spec_curve, Parameters_default]\<rparr>)"
  "setCorrelationGroupParameters 0 late_curve fresh_model =
     (Inr (), fresh_model\<lparr>theCorrParams := [late_curve, Parameters_default]\<rparr>)"
  "setCorrelationGroupParameters 0 flat_curve fresh_model =
     (Inr (), fresh_model\<lparr>theCorrParams := [flat_curve, Parameters_default]\<rparr>)"
  "setCorrelationGroupParameters 0 single_curve fresh_model =
     (Inr (), fresh_model\<lparr>theCorrParams := [single_curve, Parameters_default]\<rparr>)"
  "setCorrelationGroupParameters 0 rising_curve fresh_model =
     (Inl (Error BOUNDS), fresh_model)"
  "setCorrelationGroupParameters 0 large_curve fresh_model =
     (Inl (Error BOUNDS), fresh_model)"
  "setCorrelationGroupParameters 2 spec_curve fresh_model =
     (Inl (Error INDEX_OUT_OF_RANGE), fresh_model)"
  by (simp_all add: setCorrelationGroupParameters_def checkParameterGroupIndex_def
      fresh_model_fields validate_from.simps
      spec_curve_def late_curve_def flat_curve_def single_curve_def rising_curve_def large_curve_def)

lemma installs_wide:
  "setCorrelationGroupParameters 0 wide_curve fresh_model =
     (Inr (), fresh_model\<lparr>theCorrParams := [wide_curve, Parameters_default]\<rparr>)"
  by (simp add: setCorrelationGroupParameters_def checkParameterGroupIndex_def
      fresh_model_fields validate_from.simps wide_curve_def)

lemma one_group_models:
  "one_group spec_curve = fresh_model\<lparr>theCorrParams := [spec_curve, Parameters_default]\<rparr>"
  "one_group late_curve = fresh_model\<lparr>theCorrParams := [late_curve, Parameters_default]\<rparr>"
  "one_group flat_curve = fresh_model\<lparr>theCorrParams := [flat_curve, Parameters_default]\<rparr>"
  "one_group single_curve = fresh_model\<lparr>theCorrParams := [single_curve, Parameters_default]\<rparr>"
  by (simp_all add: one_group_def installs)

lemma one_group_curves:
  "theCorrParams (one_group spec_curve) ! 0 = spec_curve"
  "theCorrParams (one_group late_curve) ! 0 = late_curve"
  "theCorrParams (one_group flat_curve) ! 0 = flat_curve"
  "theCorrParams (one_group single_curve) ! 0 = single_curve"
  by (simp_all add: one_group_models)

section \<open>The claims\<close>

subsection \<open>C1: the number of groups\<close>

text \<open>
  C1 says that a model constructed with the counts \<open>numSMParams\<close> and \<open>numGroups\<close>
  reports \<open>numGroups\<close> groups. The constructor sizes the curve store with
  \<open>numSMParams\<close>: a model constructed with 3 parameters and 2 groups reports 3 groups.
\<close>

theorem group_count_is_numSMParams:
  "getNumCorrelationParameterGroups (LinearDecayCorrelationModel_new 3 2) = 3 \<and>
   getNumCorrelationParameterGroups (LinearDecayCorrelationModel_new 3 2) \<noteq> 2"
  by (simp add: getNumCorrelationParameterGroups_def LinearDecayCorrelationModel_new_def)

subsection \<open>C2: at or before the first breakpoint\<close>

text \<open>
  C2 says that the coefficient is the first correlation whenever the magnitude of
  \<open>deltaTime\<close> is at most the first time. For the curve with the times 10, 20 and the
  correlations 1/2, 0, installed by \<^verbatim>\<open>setCorrelationGroupParameters\<close>, the coefficient
  at \<open>deltaTime = 0\<close> is 1: the line through the first two breakpoints is followed to
  the left of the first one.
\<close>

theorem first_value_counterexample:
  "reachable (one_group late_curve) \<and>
   0 < getNumCorrelationParameterGroups (one_group late_curve) \<and>
   theCorrParams (one_group late_curve) ! 0 = late_curve \<and>
   theInitialCorrsPerSegment late_curve \<noteq> [] \<and>
   \<bar>0 :: real\<bar> \<le> theTimesPerSegment late_curve ! 0 \<and>
   theInitialCorrsPerSegment late_curve ! 0 = 1 / 2 \<and>
   getCorrelationCoefficient (one_group late_curve) 0 0 = Inr 1 \<and>
   getCorrelationCoefficient (one_group late_curve) 0 0 \<noteq>
     Inr (theInitialCorrsPerSegment late_curve ! 0)"
proof -
  have "getCorrelationCoefficient (one_group late_curve) 0 0 = Inr 1"
    by (subst one_group_models)
       (simp add: late_curve_def getCorrelationCoefficient_def checkParameterGroupIndex_def
        fresh_model_fields read_at_def divide_checked_def clamp_coefficient_def scan_from.simps)
  moreover have "theInitialCorrsPerSegment late_curve \<noteq> [] \<and>
      \<bar>0 :: real\<bar> \<le> theTimesPerSegment late_curve ! 0 \<and>
      theInitialCorrsPerSegment late_curve ! 0 = 1 / 2"
    by (simp add: late_curve_def)
  ultimately show ?thesis
    by (simp add: one_group_reachable one_group_count one_group_curves)
qed

text \<open>
  C2 as amended: in a reachable model, for a valid group with a non-empty curve and
  \<open>\<bar>deltaTime\<bar>\<close> at most the first time, the coefficient is the clamped value at
  \<open>\<bar>deltaTime\<bar>\<close> of the line through the first two breakpoints, and the clamped first
  correlation when there is one breakpoint only or when the first two times are equal. So
  it is the clamped first correlation when \<open>\<bar>deltaTime\<bar>\<close> equals the first time,
  and the first correlation itself when the curve has two breakpoints or more.
\<close>

theorem coefficient_up_to_first_breakpoint:
  fixes m g deltaTime
  defines "cs \<equiv> theInitialCorrsPerSegment (theCorrParams m ! g)"
    and "ts \<equiv> theTimesPerSegment (theCorrParams m ! g)"
  assumes "reachable m" and "g < getNumCorrelationParameterGroups m"
    and "cs \<noteq> []" and "\<bar>deltaTime\<bar> \<le> ts ! 0"
  shows "getCorrelationCoefficient m g deltaTime =
      Inr (clamp_coefficient
        (if length cs = 1 \<or> ts ! 1 = ts ! 0 then cs ! 0
         else cs ! 0 + (\<bar>deltaTime\<bar> - ts ! 0) / (ts ! 1 - ts ! 0) * (cs ! 1 - cs ! 0))) \<and>
    (length cs = 1 \<or> ts ! 1 = ts ! 0 \<or> \<bar>deltaTime\<bar> = ts ! 0 \<longrightarrow>
       getCorrelationCoefficient m g deltaTime = Inr (clamp_coefficient (cs ! 0))) \<and>
    (1 < length cs \<longrightarrow> clamp_coefficient (cs ! 0) = cs ! 0)"
proof -
  let ?cp = "theCorrParams m ! g"
  have g: "g < length (theCorrParams m)"
    using assms(4) by (simp add: getNumCorrelationParameterGroups_def)
  have ok: "stored_ok ?cp"
    using assms(3) g by (auto intro: reachable_stored_ok)
  then have len: "length ts = length cs"
    by (simp add: stored_ok_def cs_def ts_def)
  obtain r where r: "scan_from ?cp (length cs) \<bar>deltaTime\<bar> 1 (cs ! 0) (ts ! 0) (cs ! 0) = Inr r"
    and res: "getCorrelationCoefficient m g deltaTime = Inr (clamp_coefficient r)"
    using coefficient_stored [OF assms(3) g, of deltaTime] assms(5)
    unfolding cs_def ts_def by blast
  show ?thesis
  proof (cases "length cs = 1")
    case True
    then have "r = cs ! 0"
      using r by (simp add: scan_from_done)
    then show ?thesis using res True by simp
  next
    case False
    with assms(5) have two: "1 < length cs"
      by (cases cs) auto
    then have all: "\<forall>j < length cs. breakpoint_ok ?cp j"
      using ok by (simp add: stored_ok_def cs_def)
    from assms(5) have "0 < length cs" by simp
    with all two have bp0: "breakpoint_ok ?cp 0" and bp1: "breakpoint_ok ?cp 1"
      by blast+
    from bp1 have t: "ts ! 0 \<le> ts ! 1"
      by (simp add: breakpoint_ok_def ts_def)
    from bp0 have c0: "0 \<le> cs ! 0" "cs ! 0 \<le> 1"
      by (simp_all add: breakpoint_ok_def cs_def)
    have "scan_from ?cp (length cs) \<bar>deltaTime\<bar> 1 (cs ! 0) (ts ! 0) (cs ! 0) =
        (if ts ! 1 - ts ! 0 \<noteq> 0 then
           Inr (cs ! 0 + (\<bar>deltaTime\<bar> - ts ! 0) / (ts ! 1 - ts ! 0) * (cs ! 1 - cs ! 0))
         else Inr (cs ! 0))"
      using two len t assms(6)
      by (subst scan_from_step) (simp_all add: cs_def ts_def)
    with r have "r = (if ts ! 1 = ts ! 0 then cs ! 0
         else cs ! 0 + (\<bar>deltaTime\<bar> - ts ! 0) / (ts ! 1 - ts ! 0) * (cs ! 1 - cs ! 0))"
      by (simp split: if_splits)
    then show ?thesis
      using res False two c0 by (auto simp: clamp_coefficient_id)
  qed
qed

theorem coefficient_up_to_first_breakpoint_witness:
  "reachable (one_group late_curve) \<and>
   0 < getNumCorrelationParameterGroups (one_group late_curve) \<and>
   theInitialCorrsPerSegment (theCorrParams (one_group late_curve) ! 0) \<noteq> [] \<and>
   \<bar>4 :: real\<bar> \<le> theTimesPerSegment (theCorrParams (one_group late_curve) ! 0) ! 0 \<and>
   getCorrelationCoefficient (one_group late_curve) 0 4 = Inr (4 / 5) \<and>
   getCorrelationCoefficient (one_group late_curve) 0 10 = Inr (1 / 2)"
proof -
  have h1: "reachable (one_group late_curve)"
    by (rule one_group_reachable)
  have h2: "0 < getNumCorrelationParameterGroups (one_group late_curve)"
    by (simp add: one_group_count)
  have h3: "theInitialCorrsPerSegment (theCorrParams (one_group late_curve) ! 0) \<noteq> []"
    by (subst one_group_curves) (simp add: late_curve_def)
  have h4: "\<bar>4 :: real\<bar> \<le> theTimesPerSegment (theCorrParams (one_group late_curve) ! 0) ! 0"
    by (subst one_group_curves) (simp add: late_curve_def)
  have h5: "\<bar>10 :: real\<bar> \<le> theTimesPerSegment (theCorrParams (one_group late_curve) ! 0) ! 0"
    by (subst one_group_curves) (simp add: late_curve_def)
  have c: "theCorrParams (one_group late_curve) ! 0 = late_curve"
    by (rule one_group_curves)
  show ?thesis
    using h1 h2 h3 h4 coefficient_up_to_first_breakpoint [OF h1 h2 h3 h4]
      coefficient_up_to_first_breakpoint [OF h1 h2 h3 h5]
    unfolding c by (simp add: late_curve_def clamp_coefficient_def)
qed

subsection \<open>C3: the range check of the correlations\<close>

text \<open>
  C3 says that a correlation outside the unit interval is refused also in a curve with
  exactly one breakpoint. The validation loop runs only when the curve has more than one
  breakpoint: the curve with the single correlation 3/2 is installed.
\<close>

theorem single_breakpoint_counterexample:
  "0 < getNumCorrelationParameterGroups fresh_model \<and>
   length (theInitialCorrsPerSegment single_curve) = length (theTimesPerSegment single_curve) \<and>
   1 < theInitialCorrsPerSegment single_curve ! 0 \<and>
   fst (setCorrelationGroupParameters 0 single_curve fresh_model) = Inr () \<and>
   fst (setCorrelationGroupParameters 0 single_curve fresh_model) \<noteq> Inl (Error BOUNDS) \<and>
   getCorrelationGroupParameters
     (snd (setCorrelationGroupParameters 0 single_curve fresh_model)) 0 =
     Inr single_curve"
  by (simp add: installs)
     (simp add: getNumCorrelationParameterGroups_def getCorrelationGroupParameters_def
      checkParameterGroupIndex_def fresh_model_fields single_curve_def)

text \<open>
  C3 as amended: for a valid group index and vectors of equal size, a curve with two
  breakpoints or more is refused with \<open>BOUNDS\<close>, the model unchanged, when one of its
  correlations is outside the unit interval, and is installed only when all of them are
  inside; a curve with at most one breakpoint is installed without any check of its
  value.
\<close>

theorem setCurve_range_check:
  fixes p m g
  defines "cs \<equiv> theInitialCorrsPerSegment p"
  assumes "g < getNumCorrelationParameterGroups m"
    and "length cs = length (theTimesPerSegment p)"
  shows "(1 < length cs \<and> (\<exists>i < length cs. cs ! i < 0 \<or> 1 < cs ! i) \<longrightarrow>
            setCorrelationGroupParameters g p m = (Inl (Error BOUNDS), m)) \<and>
         (1 < length cs \<and> fst (setCorrelationGroupParameters g p m) = Inr () \<longrightarrow>
            (\<forall>i < length cs. 0 \<le> cs ! i \<and> cs ! i \<le> 1)) \<and>
         (length cs \<le> 1 \<longrightarrow>
            setCorrelationGroupParameters g p m =
              (Inr (), m\<lparr>theCorrParams := (theCorrParams m)[g := p]\<rparr>))"
proof -
  have g: "g < length (theCorrParams m)"
    using assms(2) by (simp add: getNumCorrelationParameterGroups_def)
  have bad: "\<not> stored_ok p" if "1 < length cs" and "\<exists>i < length cs. cs ! i < 0 \<or> 1 < cs ! i"
    using that unfolding stored_ok_def breakpoint_ok_def cs_def by force
  have good: "\<forall>i < length cs. 0 \<le> cs ! i \<and> cs ! i \<le> 1" if "1 < length cs" and "stored_ok p"
    using that unfolding stored_ok_def breakpoint_ok_def cs_def by blast
  have short: "stored_ok p" if "length cs \<le> 1"
    using that assms(3) unfolding stored_ok_def cs_def by simp
  show ?thesis
    using setCurve_cases [of g p m] g bad good short by auto
qed

theorem setCurve_range_check_witness:
  "0 < getNumCorrelationParameterGroups fresh_model \<and>
   length (theInitialCorrsPerSegment large_curve) = length (theTimesPerSegment large_curve) \<and>
   1 < length (theInitialCorrsPerSegment large_curve) \<and>
   1 < theInitialCorrsPerSegment large_curve ! 0 \<and>
   setCorrelationGroupParameters 0 large_curve fresh_model =
     (Inl (Error BOUNDS), fresh_model) \<and>
   length (theInitialCorrsPerSegment spec_curve) = length (theTimesPerSegment spec_curve) \<and>
   1 < length (theInitialCorrsPerSegment spec_curve) \<and>
   fst (setCorrelationGroupParameters 0 spec_curve fresh_model) = Inr () \<and>
   0 \<le> theInitialCorrsPerSegment spec_curve ! 2 \<and>
   theInitialCorrsPerSegment spec_curve ! 0 \<le> 1 \<and>
   length (theInitialCorrsPerSegment single_curve) \<le> 1 \<and>
   snd (setCorrelationGroupParameters 0 single_curve fresh_model) =
     fresh_model\<lparr>theCorrParams := [single_curve, Parameters_default]\<rparr>"
proof -
  have g: "0 < getNumCorrelationParameterGroups fresh_model"
    by (simp add: getNumCorrelationParameterGroups_def fresh_model_fields)
  have l1: "length (theInitialCorrsPerSegment large_curve) = length (theTimesPerSegment large_curve)"
    and l2: "length (theInitialCorrsPerSegment spec_curve) = length (theTimesPerSegment spec_curve)"
    and l3: "length (theInitialCorrsPerSegment single_curve) = length (theTimesPerSegment single_curve)"
    by (simp_all add: large_curve_def spec_curve_def single_curve_def)
  have big: "1 < length (theInitialCorrsPerSegment large_curve) \<and>
      (\<exists>i < length (theInitialCorrsPerSegment large_curve).
          theInitialCorrsPerSegment large_curve ! i < 0 \<or> 1 < theInitialCorrsPerSegment large_curve ! i)"
    by (auto simp: large_curve_def intro: exI [of _ 0])
  have ok: "fst (setCorrelationGroupParameters 0 spec_curve fresh_model) = Inr ()"
    by (simp add: installs)
  have two: "1 < length (theInitialCorrsPerSegment spec_curve)"
    by (simp add: spec_curve_def)
  have one: "length (theInitialCorrsPerSegment single_curve) \<le> 1"
    by (simp add: single_curve_def)
  have "fresh_model
      \<lparr>theCorrParams := (theCorrParams fresh_model)[0 := single_curve]\<rparr> =
      fresh_model\<lparr>theCorrParams := [single_curve, Parameters_default]\<rparr>"
    by (simp add: fresh_model_fields)
  then show ?thesis
    using g l1 l2 l3 big ok two one
      setCurve_range_check [OF g l1] setCurve_range_check [OF g l2] setCurve_range_check [OF g l3]
    by (simp add: large_curve_def spec_curve_def)
qed

subsection \<open>C4: the index checks\<close>

text \<open>
  C4 says that a group index is refused exactly when it is at or beyond the number of
  groups given to the constructor. The check compares with the size of the curve store,
  which is the number of parameters: with 3 parameters and 2 groups the group index 2 is
  accepted by all four member functions that take one, and with 2 parameters and 3
  groups the group index 2 is refused by all four.
\<close>

theorem group_index_checked_against_numSMParams:
  "getCorrelationGroupParameters (LinearDecayCorrelationModel_new 3 2) 2 = Inr Parameters_default \<and>
   getCorrelationCoefficient (LinearDecayCorrelationModel_new 3 2) 2 0 = Inl OutOfRangeRead \<and>
   fst (setCorrelationGroupParameters 2 Parameters_default (LinearDecayCorrelationModel_new 3 2)) = Inr () \<and>
   fst (setCorrelationParameterGroup 0 2 (LinearDecayCorrelationModel_new 3 2)) = Inr () \<and>
   getCorrelationGroupParameters (LinearDecayCorrelationModel_new 2 3) 2 = Inl (Error INDEX_OUT_OF_RANGE) \<and>
   getCorrelationCoefficient (LinearDecayCorrelationModel_new 2 3) 2 0 = Inl (Error INDEX_OUT_OF_RANGE) \<and>
   fst (setCorrelationGroupParameters 2 Parameters_default (LinearDecayCorrelationModel_new 2 3)) =
     Inl (Error INDEX_OUT_OF_RANGE) \<and>
   fst (setCorrelationParameterGroup 0 2 (LinearDecayCorrelationModel_new 2 3)) =
     Inl (Error INDEX_OUT_OF_RANGE)"
  by (simp add: getCorrelationGroupParameters_def getCorrelationCoefficient_def
      setCorrelationGroupParameters_def setCorrelationParameterGroup_def
      checkParameterGroupIndex_def checkSensorModelParameterIndex_def
      LinearDecayCorrelationModel_new_def Parameters_default_def read_at_def
      numeral_2_eq_2 numeral_3_eq_3)

subsection \<open>C5: the documented values\<close>

text \<open>
  C5: for a group whose curve has the times 0, 10, 20 and the correlations 1, 1/2, 0, the
  coefficient is 1 at 0, 3/4 at 5, 1/4 at 15, 0 at 20 and 0 at 25, beyond the last
  breakpoint.
\<close>

theorem example_values:
  assumes "g < getNumCorrelationParameterGroups m"
    and "theCorrParams m ! g =
           \<lparr>theInitialCorrsPerSegment = [1, 1 / 2, 0], theTimesPerSegment = [0, 10, 20]\<rparr>"
  shows "getCorrelationCoefficient m g 0 = Inr 1 \<and>
         getCorrelationCoefficient m g 5 = Inr (3 / 4) \<and>
         getCorrelationCoefficient m g 15 = Inr (1 / 4) \<and>
         getCorrelationCoefficient m g 20 = Inr 0 \<and>
         getCorrelationCoefficient m g 25 = Inr 0"
  using assms
  by (simp add: getCorrelationCoefficient_def getNumCorrelationParameterGroups_def
      checkParameterGroupIndex_def read_at_def divide_checked_def clamp_coefficient_def
      scan_from.simps)

theorem example_values_witness:
  "0 < getNumCorrelationParameterGroups (one_group spec_curve) \<and>
   theCorrParams (one_group spec_curve) ! 0 =
     \<lparr>theInitialCorrsPerSegment = [1, 1 / 2, 0], theTimesPerSegment = [0, 10, 20]\<rparr> \<and>
   getCorrelationCoefficient (one_group spec_curve) 0 5 = Inr (3 / 4) \<and>
   getCorrelationCoefficient (one_group spec_curve) 0 25 = Inr 0"
proof -
  have h1: "0 < getNumCorrelationParameterGroups (one_group spec_curve)"
    by (simp add: one_group_count)
  have h2: "theCorrParams (one_group spec_curve) ! 0 =
     \<lparr>theInitialCorrsPerSegment = [1, 1 / 2, 0], theTimesPerSegment = [0, 10, 20]\<rparr>"
    by (subst one_group_curves) (simp add: spec_curve_def)
  show ?thesis
    using h1 h2 example_values [OF h1 h2] by simp
qed

subsection \<open>C6: all or nothing\<close>

text \<open>
  C6: when \<^verbatim>\<open>setCorrelationGroupParameters\<close> throws, which it does with
  \<open>INDEX_OUT_OF_RANGE\<close> or \<open>BOUNDS\<close> only, the model is the one before the call; when it
  returns, the model differs in the curve of that group only, which is the new curve in
  full.
\<close>

theorem setCurve_all_or_nothing:
  "(\<forall>e. fst (setCorrelationGroupParameters g p m) = Inl e \<longrightarrow>
      snd (setCorrelationGroupParameters g p m) = m \<and>
      (e = Error INDEX_OUT_OF_RANGE \<or> e = Error BOUNDS)) \<and>
   (fst (setCorrelationGroupParameters g p m) = Inr () \<longrightarrow>
      snd (setCorrelationGroupParameters g p m) =
        m\<lparr>theCorrParams := (theCorrParams m)[g := p]\<rparr> \<and>
      getCorrelationGroupParameters (snd (setCorrelationGroupParameters g p m)) g = Inr p)"
  using setCurve_cases [of g p m]
  by (auto simp: getCorrelationGroupParameters_def checkParameterGroupIndex_def)

theorem setCurve_all_or_nothing_witness:
  "fst (setCorrelationGroupParameters 0 rising_curve (one_group spec_curve)) = Inl (Error BOUNDS) \<and>
   snd (setCorrelationGroupParameters 0 rising_curve (one_group spec_curve)) = one_group spec_curve \<and>
   fst (setCorrelationGroupParameters 2 late_curve (one_group spec_curve)) = Inl (Error INDEX_OUT_OF_RANGE) \<and>
   snd (setCorrelationGroupParameters 2 late_curve (one_group spec_curve)) = one_group spec_curve \<and>
   fst (setCorrelationGroupParameters 0 late_curve (one_group spec_curve)) = Inr () \<and>
   getCorrelationGroupParameters
     (snd (setCorrelationGroupParameters 0 late_curve (one_group spec_curve))) 0 = Inr late_curve"
proof -
  have m: "one_group spec_curve = fresh_model\<lparr>theCorrParams := [spec_curve, Parameters_default]\<rparr>"
    by (rule one_group_models)
  have f1: "fst (setCorrelationGroupParameters 0 rising_curve (one_group spec_curve)) = Inl (Error BOUNDS)"
    and f2: "fst (setCorrelationGroupParameters 2 late_curve (one_group spec_curve)) =
      Inl (Error INDEX_OUT_OF_RANGE)"
    and f3: "fst (setCorrelationGroupParameters 0 late_curve (one_group spec_curve)) = Inr ()"
    by (simp_all add: m setCorrelationGroupParameters_def checkParameterGroupIndex_def
      fresh_model_fields validate_from.simps rising_curve_def late_curve_def)
  show ?thesis
    using f1 f2 f3 setCurve_all_or_nothing [of 0 rising_curve "one_group spec_curve"]
      setCurve_all_or_nothing [of 2 late_curve "one_group spec_curve"]
      setCurve_all_or_nothing [of 0 late_curve "one_group spec_curve"]
    by blast
qed

subsection \<open>C7: symmetry\<close>

text \<open>
  C7: in a reachable model, for a valid group with a non-empty curve, the coefficient at
  \<open>t\<close> and the coefficient at \<open>- t\<close> are the same number.
\<close>

theorem coefficient_symmetric:
  assumes "reachable m" and "g < getNumCorrelationParameterGroups m"
    and "theInitialCorrsPerSegment (theCorrParams m ! g) \<noteq> []"
  shows "\<exists>r. getCorrelationCoefficient m g t = Inr r \<and> getCorrelationCoefficient m g (- t) = Inr r"
  using coefficient_stored [OF assms(1) _ assms(3), of t] assms(2)
  by (auto simp: getNumCorrelationParameterGroups_def coefficient_abs)

theorem coefficient_symmetric_witness:
  "reachable (one_group spec_curve) \<and>
   0 < getNumCorrelationParameterGroups (one_group spec_curve) \<and>
   theInitialCorrsPerSegment (theCorrParams (one_group spec_curve) ! 0) \<noteq> [] \<and>
   (\<exists>r. getCorrelationCoefficient (one_group spec_curve) 0 5 = Inr r \<and>
        getCorrelationCoefficient (one_group spec_curve) 0 (- 5) = Inr r)"
proof -
  have h1: "reachable (one_group spec_curve)"
    by (rule one_group_reachable)
  have h2: "0 < getNumCorrelationParameterGroups (one_group spec_curve)"
    by (simp add: one_group_count)
  have h3: "theInitialCorrsPerSegment (theCorrParams (one_group spec_curve) ! 0) \<noteq> []"
    by (subst one_group_curves) (simp add: spec_curve_def)
  show ?thesis
    using h1 h2 h3 coefficient_symmetric [OF h1 h2 h3, of 5] by simp
qed

subsection \<open>C8: the unit interval\<close>

text \<open>
  C8 says that, for a valid group with a non-empty stored curve and any \<open>deltaTime\<close>,
  \<^verbatim>\<open>getCorrelationCoefficient\<close> returns a number between 0 and 1. The curve with the
  correlations 1, 0 and the times \<open>- 2 ^ 1023\<close>, \<open>2 ^ 1023\<close> passes the validation and
  is stored. At \<open>deltaTime = 2 ^ 1023\<close> the two differences \<^verbatim>\<open>time - prevTime\<close> and
  \<^verbatim>\<open>adt - prevTime\<close> are \<open>2 ^ 1024\<close>, which is infinite in binary64; their quotient
  is NaN, and so is the interpolated value. Neither comparison of the clamp is true of
  NaN, which is returned.
\<close>

theorem coefficient_not_a_number:
  "fst (setCorrelationGroupParameters 0 wide_curve fresh_model) = Inr () \<and>
   getCorrelationCoefficient_binary64 rnd
     (snd (setCorrelationGroupParameters 0 wide_curve fresh_model)) 0 (Finite (2 ^ 1023)) = Inr NaN \<and>
   \<not> (double_le (Finite 0) NaN \<and> double_le NaN (Finite 1))"
  unfolding installs_wide
  by (simp add: getCorrelationCoefficient_binary64_def checkParameterGroupIndex_def
      fresh_model_fields wide_curve_def read_double_at_def scan_from_binary64.simps
      double_le_def double_eq_def double_sub_def double_divide_checked_def round_to_double_def
      clamp_coefficient_binary64_def)

subsection \<open>C9: segments of width zero\<close>

text \<open>
  C9: \<^verbatim>\<open>getCorrelationCoefficient\<close> never divides by zero, whatever the model and the
  arguments; for a group whose curve has the times 5, 5 and the correlations 4/5, 4/5
  the coefficient at 5 is 4/5.
\<close>

theorem no_division_by_zero:
  "getCorrelationCoefficient m g deltaTime \<noteq> Inl DivisionByZero \<and>
   (g < getNumCorrelationParameterGroups m \<and>
    theCorrParams m ! g =
      \<lparr>theInitialCorrsPerSegment = [4 / 5, 4 / 5], theTimesPerSegment = [5, 5]\<rparr> \<longrightarrow>
    getCorrelationCoefficient m g 5 = Inr (4 / 5))"
proof
  show "getCorrelationCoefficient m g deltaTime \<noteq> Inl DivisionByZero"
    using scan_from_never_divides_by_zero
    by (auto simp: getCorrelationCoefficient_def checkParameterGroupIndex_def read_at_def Let_def
        split: sum.splits)
  show "g < getNumCorrelationParameterGroups m \<and>
    theCorrParams m ! g =
      \<lparr>theInitialCorrsPerSegment = [4 / 5, 4 / 5], theTimesPerSegment = [5, 5]\<rparr> \<longrightarrow>
    getCorrelationCoefficient m g 5 = Inr (4 / 5)"
    by (simp add: getCorrelationCoefficient_def getNumCorrelationParameterGroups_def
      checkParameterGroupIndex_def read_at_def divide_checked_def clamp_coefficient_def
      scan_from.simps)
qed

theorem no_division_by_zero_witness:
  "0 < getNumCorrelationParameterGroups (one_group flat_curve) \<and>
   theCorrParams (one_group flat_curve) ! 0 =
     \<lparr>theInitialCorrsPerSegment = [4 / 5, 4 / 5], theTimesPerSegment = [5, 5]\<rparr> \<and>
   getCorrelationCoefficient (one_group flat_curve) 0 5 = Inr (4 / 5)"
proof -
  have h1: "0 < getNumCorrelationParameterGroups (one_group flat_curve)"
    by (simp add: one_group_count)
  have h2: "theCorrParams (one_group flat_curve) ! 0 =
     \<lparr>theInitialCorrsPerSegment = [4 / 5, 4 / 5], theTimesPerSegment = [5, 5]\<rparr>"
    by (subst one_group_curves) (simp add: flat_curve_def)
  show ?thesis
    using h1 h2 no_division_by_zero [of "one_group flat_curve" 0 5] by simp
qed

subsection \<open>C10: the two counts are equal\<close>

text \<open>
  C10: in every reachable model the number of sensor model parameters equals the number
  of correlation parameter groups, and neither member function that changes the model
  changes one of the two counts.
\<close>

theorem counts_equal:
  assumes "reachable m"
  shows "getNumSensorModelParameters m = getNumCorrelationParameterGroups m \<and>
    getNumSensorModelParameters (snd (setCorrelationParameterGroup smParamIndex cpGroupIndex m)) =
      getNumSensorModelParameters m \<and>
    getNumCorrelationParameterGroups (snd (setCorrelationParameterGroup smParamIndex cpGroupIndex m)) =
      getNumCorrelationParameterGroups m \<and>
    getNumSensorModelParameters (snd (setCorrelationGroupParameters cpGroupIndex' params m)) =
      getNumSensorModelParameters m \<and>
    getNumCorrelationParameterGroups (snd (setCorrelationGroupParameters cpGroupIndex' params m)) =
      getNumCorrelationParameterGroups m"
proof -
  have "getNumSensorModelParameters m = getNumCorrelationParameterGroups m"
    using reachable_lengths [OF assms]
    by (simp add: getNumSensorModelParameters_def getNumCorrelationParameterGroups_def)
  moreover have "length (theGroupMapping (snd (setCorrelationParameterGroup smParamIndex cpGroupIndex m))) =
      length (theGroupMapping m)"
    and "length (theCorrParams (snd (setCorrelationParameterGroup smParamIndex cpGroupIndex m))) =
      length (theCorrParams m)"
    using set_results [of smParamIndex cpGroupIndex m] by auto
  moreover have "length (theGroupMapping (snd (setCorrelationGroupParameters cpGroupIndex' params m))) =
      length (theGroupMapping m)"
    and "length (theCorrParams (snd (setCorrelationGroupParameters cpGroupIndex' params m))) =
      length (theCorrParams m)"
    using setCurve_results [of cpGroupIndex' params m] by auto
  ultimately show ?thesis
    by (simp add: getNumSensorModelParameters_def getNumCorrelationParameterGroups_def)
qed

theorem counts_equal_witness:
  "reachable (one_group spec_curve) \<and>
   getNumSensorModelParameters (one_group spec_curve) =
     getNumCorrelationParameterGroups (one_group spec_curve)"
proof -
  have h: "reachable (one_group spec_curve)"
    by (rule one_group_reachable)
  show ?thesis
    using h counts_equal [OF h] by simp
qed

end
